theory Spec2Isabelle
  imports Complex_Main
begin

section \<open>Python values\<close>

text \<open>
  The program is the pair \<^verbatim>\<open>main.py\<close> (console report) and \<^verbatim>\<open>app.py\<close> (the same
  analysis behind a web page). Python floats are modelled as real numbers: comparisons and
  branch structure are those of the source, rounding and the non-finite values are left out.
  Python integers are \<open>int\<close>, strings are \<open>string\<close>, and a raised exception is the left
  summand of a result.
\<close>

datatype error = ZeroDivisionError | ProviderError

text \<open>\<^verbatim>\<open>s.endswith(suf)\<close>\<close>

definition endswith :: "string \<Rightarrow> string \<Rightarrow> bool" where
  "endswith s suf \<longleftrightarrow> length suf \<le> length s \<and> drop (length s - length suf) s = suf"

text \<open>
  A numeric entry of the \<^verbatim>\<open>info\<close> dictionary of a ticker: the key may be absent
  (\<open>None\<close> of the option), or present with the value \<^verbatim>\<open>None\<close> or a number.
\<close>

datatype pynum = PyNone | Num real

definition get :: "pynum option \<Rightarrow> pynum \<Rightarrow> pynum" where
  "get entry dflt = (case entry of None \<Rightarrow> dflt | Some v \<Rightarrow> v)"

fun truthy :: "pynum \<Rightarrow> bool" where
  "truthy PyNone = False"
| "truthy (Num r) = (r \<noteq> 0)"

definition py_or :: "pynum \<Rightarrow> pynum \<Rightarrow> pynum" where
  "py_or a b = (if truthy a then a else b)"

text \<open>
  A name entry is a \<open>string option\<close>: \<^verbatim>\<open>info.get('longName')\<close> is \<^verbatim>\<open>None\<close> for an
  absent key too, and both \<^verbatim>\<open>None\<close> and the empty string count as false.
\<close>

record info =
  longName :: "string option"
  shortName :: "string option"
  dividendRate :: "pynum option"
  currentPrice :: "pynum option"
  previousClose :: "pynum option"
  dividendYield :: "pynum option"

section \<open>Data fetching\<close>

record bar =
  Open :: real
  High :: real
  Low :: real
  Close :: real
  Volume :: real

type_synonym dataframe = "bar list"

text \<open>
  The collaborators outside the repository: the market-data provider (\<^verbatim>\<open>yfinance\<close>) and
  the indicator libraries (\<^verbatim>\<open>ta\<close>, \<^verbatim>\<open>pandas\<close>). \<open>Ticker_info\<close> is \<^verbatim>\<open>yf.Ticker(t).info\<close>
  and \<open>download\<close> is \<^verbatim>\<open>yf.download(t, period='2y', ...)\<close>; both may raise. The three
  indicator functions give the value in the last row of the series that the library call
  computes from a column and a window.
\<close>

record world =
  Ticker_info :: "string \<Rightarrow> error + info"
  download :: "string \<Rightarrow> error + dataframe"
  ta_rsi :: "real list \<Rightarrow> nat \<Rightarrow> real"
  ta_sma_indicator :: "real list \<Rightarrow> nat \<Rightarrow> real"
  rolling_mean :: "real list \<Rightarrow> nat \<Rightarrow> real"

text \<open>\<^verbatim>\<open>fetch_data\<close>: an exception of the download becomes the empty frame.\<close>

definition fetch_data :: "world \<Rightarrow> string \<Rightarrow> dataframe" where
  "fetch_data w ticker = (case download w ticker of Inl e \<Rightarrow> [] | Inr df \<Rightarrow> df)"

text \<open>
  The yield computation of \<^verbatim>\<open>get_stock_info\<close> (main.py lines 52-64, app.py lines 39-51,
  the same text in both files).
\<close>

definition yield_pct_of :: "info \<Rightarrow> real" where
  "yield_pct_of info =
     (let div_rate = get (dividendRate info) (Num 0);
          current_price = py_or (get (currentPrice info) (Num 0)) (get (previousClose info) (Num 0));
          from_raw =
            (let raw_yield = get (dividendYield info) (Num 0)
             in case raw_yield of
                  PyNone \<Rightarrow> 0
                | Num r \<Rightarrow> if r < 1 then r * 100 else r)
      in case (div_rate, current_price) of
           (Num d, Num c) \<Rightarrow>
             if truthy (Num d) \<and> truthy (Num c) \<and> c > 0 then (d / c) * 100 else from_raw
         | _ \<Rightarrow> from_raw)"

definition currency_of :: "string \<Rightarrow> string" where
  "currency_of ticker =
     (if endswith ticker ''.KL'' then ''RM''
      else if endswith ticker ''.HK'' then ''HKD''
      else ''USD'')"

text \<open>\<^verbatim>\<open>a or b\<close> for a name entry \<open>a\<close> and a string \<open>b\<close>.\<close>

definition str_or :: "string option \<Rightarrow> string \<Rightarrow> string" where
  "str_or a b = (case a of None \<Rightarrow> b | Some s \<Rightarrow> if s \<noteq> [] then s else b)"

text \<open>\<^verbatim>\<open>get_stock_info\<close> of main.py.\<close>

definition get_stock_info :: "world \<Rightarrow> string \<Rightarrow> string \<times> real \<times> string" where
  "get_stock_info w ticker =
     (case Ticker_info w ticker of
        Inl e \<Rightarrow> (ticker, 0, ''N/A'')
      | Inr info \<Rightarrow>
          (let long_name = longName info;
               short_name = shortName info;
               name =
                 (case (long_name, short_name) of
                    (Some l, Some s) \<Rightarrow>
                      if l \<noteq> [] \<and> s \<noteq> [] \<and> l \<noteq> s then l @ '' - '' @ s
                      else str_or long_name (str_or short_name ticker)
                  | _ \<Rightarrow> str_or long_name (str_or short_name ticker));
               currency = currency_of ticker;
               yield_pct = yield_pct_of info
           in (name, yield_pct, currency)))"

text \<open>\<^verbatim>\<open>get_stock_info\<close> of app.py.\<close>

definition get_stock_info_app :: "world \<Rightarrow> string \<Rightarrow> string \<times> real \<times> string" where
  "get_stock_info_app w ticker =
     (case Ticker_info w ticker of
        Inl e \<Rightarrow> (ticker, 0, ''N/A'')
      | Inr info \<Rightarrow>
          (let name = str_or (shortName info) (str_or (longName info) ticker);
               currency = currency_of ticker;
               yield_pct = yield_pct_of info
           in (name, yield_pct, currency)))"

section \<open>Fee calculator\<close>

record lot_suggestion =
  lots :: int
  cost :: real
  fee_pct :: real

text \<open>
  The loop \<^verbatim>\<open>for lots in range(1, 100)\<close> of \<^verbatim>\<open>calculate_min_lots\<close>, over the values
  still to visit; the empty list is the fall-through after the loop. The division of a
  Python float by a trade value of zero raises (a numpy scalar would give an infinite
  value instead, which the real numbers do not have).
\<close>

fun lots_loop :: "real \<Rightarrow> int list \<Rightarrow> error + lot_suggestion option" where
  "lots_loop price_per_unit [] =
     Inr (Some \<lparr>lots = 1, cost = price_per_unit * 100, fee_pct = 100\<rparr>)"
| "lots_loop price_per_unit (n # rest) =
     (let total_value = price_per_unit * 100 * of_int n;
          stamp_duty = \<lceil>total_value / 1000\<rceil>;
          stamp_duty = (if stamp_duty < 1 then 1 else stamp_duty);
          clearing_fee = total_value * 0.0003;
          platform_fee = 3.00;
          total_fee = platform_fee + of_int stamp_duty + clearing_fee
      in if total_value = 0 then Inl ZeroDivisionError
         else
           (let fee_percentage = (total_fee / total_value) * 100
            in if fee_percentage < 1.0
               then Inr (Some \<lparr>lots = n, cost = total_value, fee_pct = fee_percentage\<rparr>)
               else lots_loop price_per_unit rest))"

text \<open>\<^verbatim>\<open>calculate_min_lots\<close> (the same code in main.py and app.py).\<close>

definition calculate_min_lots :: "real \<Rightarrow> string \<Rightarrow> error + lot_suggestion option" where
  "calculate_min_lots price_per_unit ticker =
     (if \<not> endswith ticker ''.KL'' then Inr None
      else lots_loop price_per_unit [1..99])"

section \<open>Technical analysis\<close>

record stock_data =
  price :: real
  rsi :: real
  sma50 :: real
  sma200 :: real
  volume_strong :: bool

definition analyze_stock :: "world \<Rightarrow> dataframe \<Rightarrow> stock_data option" where
  "analyze_stock w df =
     (if length df < 200 then None
      else
        (let latest = last df;
             Vol_Avg = rolling_mean w (map Volume df) 20;
             is_high_volume = Volume latest > Vol_Avg * 1.2
         in Some \<lparr>price = Close latest,
                  rsi = ta_rsi w (map Close df) 14,
                  sma50 = ta_sma_indicator w (map Close df) 50,
                  sma200 = ta_sma_indicator w (map Close df) 200,
                  volume_strong = is_high_volume\<rparr>))"

section \<open>Verdict\<close>

text \<open>
  The category labels, in the order of the source: the initial empty string,
  "STRONG BUY (Discount)", "HOLD / WAIT (Overheated)", "BUY (High Momentum)",
  "BUY / ACCUMULATE", "AVOID / SELL" and "CAUTION (Trend Testing)". The two files spell
  each label identically.
\<close>

datatype category =
    Empty_label
  | STRONG_BUY_DISCOUNT
  | HOLD_OVERHEATED
  | BUY_HIGH_MOMENTUM
  | BUY_ACCUMULATE
  | AVOID_SELL
  | CAUTION_TREND_TESTING

text \<open>The dictionary app.py returns, and the one of main.py with its extra key.\<close>

record analysis =
  category :: category
  target_price :: real

record analysis_main = analysis +
  verdict :: string

text \<open>\<^verbatim>\<open>generate_long_term_verdict\<close> of main.py.\<close>

definition generate_long_term_verdict :: "'a stock_data_scheme \<Rightarrow> analysis_main" where
  "generate_long_term_verdict stock_data =
     (let price = price stock_data;
          sma50 = sma50 stock_data;
          sma200 = sma200 stock_data;
          rsi = rsi stock_data;
          vol_strong = volume_strong stock_data;
          is_bull_market = sma50 > sma200;
          is_price_healthy = price > sma200;
          category = Empty_label;
          verdict = [];
          target_price = (0.0::real);
          (category, target_price) =
            (if is_bull_market \<and> is_price_healthy then
               (if rsi < 55 then (STRONG_BUY_DISCOUNT, price)
                else if rsi > 70 then (HOLD_OVERHEATED, sma50)
                else
                  (if vol_strong then (BUY_HIGH_MOMENTUM, price)
                   else (BUY_ACCUMULATE, price)))
             else if \<not> is_bull_market then (AVOID_SELL, 0.0)
             else (CAUTION_TREND_TESTING, sma200))
      in \<lparr>category = category, target_price = target_price, verdict = verdict\<rparr>)"

text \<open>\<^verbatim>\<open>generate_long_term_verdict\<close> of app.py.\<close>

definition generate_long_term_verdict_app :: "'a stock_data_scheme \<Rightarrow> analysis" where
  "generate_long_term_verdict_app stock_data =
     (let price = price stock_data;
          sma50 = sma50 stock_data;
          sma200 = sma200 stock_data;
          rsi = rsi stock_data;
          vol_strong = volume_strong stock_data;
          is_bull_market = sma50 > sma200;
          is_price_healthy = price > sma200;
          category = Empty_label;
          target_price = (0.0::real);
          (category, target_price) =
            (if is_bull_market \<and> is_price_healthy then
               (if rsi < 55 then (STRONG_BUY_DISCOUNT, price)
                else if rsi > 70 then (HOLD_OVERHEATED, sma50)
                else ((if vol_strong then BUY_HIGH_MOMENTUM else BUY_ACCUMULATE), price))
             else if \<not> is_bull_market then (AVOID_SELL, 0.0)
             else (CAUTION_TREND_TESTING, sma200))
      in \<lparr>category = category, target_price = target_price\<rparr>)"

section \<open>Main loop and report\<close>

text \<open>The entry appended to \<^verbatim>\<open>portfolio_analysis\<close>: the snapshot with six more keys.\<close>

record report = stock_data +
  ticker :: string
  name :: string
  currency :: string
  div_yield :: real
  analysis :: analysis_main
  smart_lots :: "lot_suggestion option"

text \<open>One pass of the body of \<^verbatim>\<open>for ticker in tickers\<close> in main.py.\<close>

definition loop_body :: "world \<Rightarrow> string \<Rightarrow> report list \<Rightarrow> error + report list" where
  "loop_body w t portfolio_analysis =
     (case get_stock_info w t of (nm, dy, cur) \<Rightarrow>
        (let df = fetch_data w t
         in if df \<noteq> [] then
              (case analyze_stock w df of
                 None \<Rightarrow> Inr portfolio_analysis
               | Some stats \<Rightarrow>
                   (case calculate_min_lots (price stats) t of
                      Inl e \<Rightarrow> Inl e
                    | Inr sl \<Rightarrow>
                        Inr (portfolio_analysis @
                          [stock_data.extend stats
                             (report.fields t nm cur dy (generate_long_term_verdict stats) sl)])))
            else Inr portfolio_analysis))"

fun main_loop :: "world \<Rightarrow> string list \<Rightarrow> report list \<Rightarrow> error + report list" where
  "main_loop w [] portfolio_analysis = Inr portfolio_analysis"
| "main_loop w (t # tickers) portfolio_analysis =
     (case loop_body w t portfolio_analysis of
        Inl e \<Rightarrow> Inl e
      | Inr portfolio_analysis' \<Rightarrow> main_loop w tickers portfolio_analysis')"

text \<open>
  The target line of the report (main.py lines 216-222, app.py lines 172-178): the
  "Wait for" text carries the currency, the target and the discount it prints.
\<close>

datatype target_msg = Wait_for string real real | BUY_NOW | NO_ENTRY

definition target_str :: "string \<Rightarrow> real \<Rightarrow> real \<Rightarrow> target_msg" where
  "target_str cur p target =
     (let price = p
      in if target > 0 \<and> price > target then
           (let discount = ((price - target) / price) * 100
            in Wait_for cur target discount)
         else if target > 0 then BUY_NOW
         else NO_ENTRY)"

section \<open>The documented behaviour, for comparison\<close>


text \<open>
  "The dividend rate is present": the entry exists, is a number and is not zero.
  "A positive price is present": the current price if that entry is a non-zero number,
  otherwise the previous close, and the number is positive.
\<close>

definition has_rate :: "info \<Rightarrow> real \<Rightarrow> bool" where
  "has_rate info d \<longleftrightarrow> dividendRate info = Some (Num d) \<and> d \<noteq> 0"

definition has_price :: "info \<Rightarrow> real \<Rightarrow> bool" where
  "has_price info c \<longleftrightarrow>
     0 < c \<and>
     (currentPrice info = Some (Num c) \<or>
      (currentPrice info \<in> {None, Some PyNone, Some (Num 0)} \<and>
       previousClose info = Some (Num c)))"

section \<open>A concrete market\<close>

text \<open>
  A flat series of \<open>n\<close> bars closing at 10, and a provider whose metadata lookup always
  fails, that has 150 bars for one ticker and 200 for any other. The moving averages are
  the arithmetic mean of the trailing window; the RSI of a flat series is 100.
\<close>

definition example_frame :: "nat \<Rightarrow> dataframe" where
  "example_frame n =
     replicate n \<lparr>Open = 10, High = 10, Low = 10, Close = 10, Volume = 1000\<rparr>"

definition example_world :: world where
  "example_world =
     \<lparr>Ticker_info = (\<lambda>t. Inl ProviderError),
      download =
        (\<lambda>t. if t = ''SHORT.KL'' then Inr (example_frame 150) else Inr (example_frame 200)),
      ta_rsi = (\<lambda>xs n. 100),
      ta_sma_indicator = (\<lambda>xs n. sum_list (drop (length xs - n) xs) / of_nat n),
      rolling_mean = (\<lambda>xs n. sum_list (drop (length xs - n) xs) / of_nat n)\<rparr>"

definition example_info :: "pynum option \<Rightarrow> pynum option \<Rightarrow> pynum option \<Rightarrow> info" where
  "example_info rate current raw =
     \<lparr>longName = Some ''Malayan Banking Berhad'', shortName = Some ''MAYBANK'',
      dividendRate = rate, currentPrice = current, previousClose = None,
      dividendYield = raw\<rparr>"

section \<open>Evaluation and loop lemmas\<close>




text \<open>The scan never answers "not applicable": it returns a suggestion or raises.\<close>

lemma lots_loop_not_None: "lots_loop p ns \<noteq> Inr None"
  by (induction ns) (simp_all add: Let_def)

lemma calculate_min_lots_at_10:
  "calculate_min_lots 10 ''LONG.KL'' = Inr (Some \<lparr>lots = 1, cost = 1000, fee_pct = 43 / 100\<rparr>)"
  by (simp add: calculate_min_lots_def endswith_def upto_rec1 Let_def)

lemma analyze_stock_short: "length df < 200 \<Longrightarrow> analyze_stock w df = None"
  by (simp add: analyze_stock_def)

lemma loop_body_skip: "length (fetch_data w t) < 200 \<Longrightarrow> loop_body w t acc = Inr acc"
  by (simp add: loop_body_def Let_def analyze_stock_def split: prod.splits)

lemma main_loop_append:
  "main_loop w (xs @ ys) acc =
     (case main_loop w xs acc of Inl e \<Rightarrow> Inl e | Inr acc' \<Rightarrow> main_loop w ys acc')"
  by (induction xs arbitrary: acc) (simp_all split: sum.splits)

lemma analyze_stock_example:
  "analyze_stock example_world (fetch_data example_world ''LONG.KL'') =
     Some \<lparr>price = 10, rsi = 100, sma50 = 10, sma200 = 10, volume_strong = False\<rparr>"
  by (simp add: analyze_stock_def fetch_data_def example_world_def example_frame_def Let_def
        sum_list_replicate)

section \<open>Fee calculator\<close>




text \<open>
  C5. For a ticker that does not end in \<^verbatim>\<open>.KL\<close>, \<open>calculate_min_lots\<close> returns
  \<^verbatim>\<open>None\<close> at every unit price (the positive ones among them). That value is not a
  suggestion of zero lots, and it is not what the scan of the lot counts gives at that
  price: the scan is not run.
\<close>

theorem calculate_min_lots_not_applicable:
  assumes "\<not> endswith tkr ''.KL''"
  shows "calculate_min_lots p tkr = Inr None \<and>
         calculate_min_lots p tkr \<noteq> Inr (Some \<lparr>lots = 0, cost = c, fee_pct = f\<rparr>) \<and>
         calculate_min_lots p tkr \<noteq> lots_loop p [1..99]"
  using assms lots_loop_not_None [of p "[1..99]"] by (simp add: calculate_min_lots_def)

theorem calculate_min_lots_not_applicable_witness:
  "\<not> endswith ''0700.HK'' ''.KL'' \<and> \<not> endswith ''AAPL'' ''.KL'' \<and>
   calculate_min_lots 350 ''0700.HK'' = Inr None \<and>
   calculate_min_lots 180 ''AAPL'' = Inr None"
  using calculate_min_lots_not_applicable [of "''0700.HK''" 350 0 0]
    calculate_min_lots_not_applicable [of "''AAPL''" 180 0 0]
  by (simp add: endswith_def)



section \<open>Verdict\<close>

text \<open>
  C2. For every snapshot with \<open>sma50 \<le> sma200\<close>, both copies of
  \<open>generate_long_term_verdict\<close> return the category AVOID / SELL and the target price 0,
  whatever the RSI, the price and the volume flag are.
\<close>

theorem verdict_bear_market:
  assumes "sma50 s \<le> sma200 s"
  shows "category (generate_long_term_verdict s) = AVOID_SELL \<and>
         target_price (generate_long_term_verdict s) = 0 \<and>
         category (generate_long_term_verdict_app s) = AVOID_SELL \<and>
         target_price (generate_long_term_verdict_app s) = 0"
  using assms
  by (simp add: generate_long_term_verdict_def generate_long_term_verdict_app_def Let_def)

theorem verdict_bear_market_witness:
  "sma50 \<lparr>price = 108, rsi = 40, sma50 = 100, sma200 = 105, volume_strong = True\<rparr>
     \<le> sma200 \<lparr>price = 108, rsi = 40, sma50 = 100, sma200 = 105, volume_strong = True\<rparr> \<and>
   category (generate_long_term_verdict
     \<lparr>price = 108, rsi = 40, sma50 = 100, sma200 = 105, volume_strong = True\<rparr>) = AVOID_SELL \<and>
   target_price (generate_long_term_verdict_app
     \<lparr>price = 108, rsi = 40, sma50 = 100, sma200 = 105, volume_strong = True\<rparr>) = 0"
  using verdict_bear_market
    [of "\<lparr>price = 108, rsi = 40, sma50 = 100, sma200 = 105, volume_strong = True\<rparr>"]
  by simp

text \<open>
  C3. For every snapshot with \<open>sma50 > sma200\<close>, \<open>price > sma200\<close> and \<open>rsi < 55\<close>, both
  copies of \<open>generate_long_term_verdict\<close> return the category STRONG BUY (Discount) and
  the snapshot's price as target price.
\<close>

theorem verdict_strong_buy:
  assumes "sma50 s > sma200 s" and "price s > sma200 s" and "rsi s < 55"
  shows "category (generate_long_term_verdict s) = STRONG_BUY_DISCOUNT \<and>
         target_price (generate_long_term_verdict s) = price s \<and>
         category (generate_long_term_verdict_app s) = STRONG_BUY_DISCOUNT \<and>
         target_price (generate_long_term_verdict_app s) = price s"
  using assms
  by (simp add: generate_long_term_verdict_def generate_long_term_verdict_app_def Let_def)

theorem verdict_strong_buy_witness:
  "sma50 \<lparr>price = 108, rsi = 40, sma50 = 105, sma200 = 100, volume_strong = False\<rparr>
     > sma200 \<lparr>price = 108, rsi = 40, sma50 = 105, sma200 = 100, volume_strong = False\<rparr> \<and>
   category (generate_long_term_verdict
     \<lparr>price = 108, rsi = 40, sma50 = 105, sma200 = 100, volume_strong = False\<rparr>)
     = STRONG_BUY_DISCOUNT \<and>
   target_price (generate_long_term_verdict_app
     \<lparr>price = 108, rsi = 40, sma50 = 105, sma200 = 100, volume_strong = False\<rparr>) = 108"
  using verdict_strong_buy
    [of "\<lparr>price = 108, rsi = 40, sma50 = 105, sma200 = 100, volume_strong = False\<rparr>"]
  by simp

text \<open>
  C9. The verdict functions of main.py and of app.py return the same category and the
  same target price for every snapshot: the result of main.py, without its extra
  \<^verbatim>\<open>verdict\<close> key, is the result of app.py.
\<close>

theorem verdict_copies_equal:
  "category (generate_long_term_verdict s) = category (generate_long_term_verdict_app s) \<and>
   target_price (generate_long_term_verdict s) =
     target_price (generate_long_term_verdict_app s) \<and>
   analysis.truncate (generate_long_term_verdict s) = generate_long_term_verdict_app s"
  by (simp add: generate_long_term_verdict_def generate_long_term_verdict_app_def Let_def
        analysis.truncate_def)

section \<open>Report\<close>

text \<open>
  C4. With a target above 0, the "Wait for" line is produced exactly when the price is
  strictly above the target, and then carries the discount
  \<open>(price - target) / price * 100\<close>; a price equal to the target gives "BUY NOW"; a
  target of 0 gives "NO ENTRY".
\<close>

theorem target_str_boundary:
  "(0 < target \<longrightarrow>
      ((\<exists>c t d. target_str cur p target = Wait_for c t d) \<longleftrightarrow> target < p) \<and>
      (target < p \<longrightarrow> target_str cur p target = Wait_for cur target ((p - target) / p * 100)) \<and>
      (p = target \<longrightarrow> target_str cur p target = BUY_NOW)) \<and>
   (target = 0 \<longrightarrow> target_str cur p target = NO_ENTRY)"
  by (simp add: target_str_def Let_def)

theorem target_str_boundary_witness:
  "0 < (108::real) \<and>
   target_str ''RM'' 108 108 = BUY_NOW \<and>
   target_str ''RM'' 120 108 = Wait_for ''RM'' 108 10 \<and>
   target_str ''RM'' 108 0 = NO_ENTRY"
  using target_str_boundary [of 108 "''RM''" 108] target_str_boundary [of 108 "''RM''" 120]
    target_str_boundary [of 0 "''RM''" 108]
  by simp

section \<open>Skipped tickers and missing metadata\<close>

text \<open>
  C6. For every bar series with fewer than 200 bars, \<open>analyze_stock\<close> returns
  \<^verbatim>\<open>None\<close>. When the bars fetched for a ticker are that few, the loop body leaves the
  report list as it was, and the run over a ticker list containing that ticker ends as
  the run over the list without it: the tickers after it are processed as before.
\<close>

theorem insufficient_history_skipped:
  "(length df < 200 \<longrightarrow> analyze_stock w df = None) \<and>
   (length (fetch_data w t) < 200 \<longrightarrow>
      loop_body w t acc = Inr acc \<and>
      main_loop w (before @ t # after) acc = main_loop w (before @ after) acc)"
  by (simp add: analyze_stock_short loop_body_skip main_loop_append split: sum.splits)

theorem insufficient_history_skipped_witness:
  "length (example_frame 150) < 200 \<and>
   analyze_stock example_world (example_frame 150) = None \<and>
   length (fetch_data example_world ''SHORT.KL'') < 200 \<and>
   loop_body example_world ''SHORT.KL'' [] = Inr [] \<and>
   main_loop example_world [''SHORT.KL'', ''LONG.KL''] [] =
     main_loop example_world [''LONG.KL''] []"
  using insufficient_history_skipped
    [of "example_frame 150" example_world "''SHORT.KL''" "[]" "[]" "[''LONG.KL'']"]
  by (simp add: fetch_data_def example_world_def example_frame_def)

text \<open>
  C7. When the metadata lookup of a ticker raises, \<open>get_stock_info\<close> (either copy)
  returns the ticker symbol as name, 0 as yield and \<^verbatim>\<open>"N/A"\<close> as currency; and the loop
  body does not skip the ticker: whenever its bars give a snapshot and the lot sizer
  returns, one record is appended, carrying these three values.
\<close>

theorem metadata_unavailable_fallback:
  assumes "Ticker_info w t = Inl e"
  shows "get_stock_info w t = (t, 0, ''N/A'') \<and>
         get_stock_info_app w t = (t, 0, ''N/A'') \<and>
         (\<forall>stats sl.
            analyze_stock w (fetch_data w t) = Some stats \<and>
            calculate_min_lots (price stats) t = Inr sl \<longrightarrow>
            (\<exists>r. loop_body w t acc = Inr (acc @ [r]) \<and>
                 ticker r = t \<and> name r = t \<and> div_yield r = 0 \<and> currency r = ''N/A'' \<and>
                 analysis r = generate_long_term_verdict stats \<and> smart_lots r = sl \<and>
                 stock_data.truncate r = stats))"
proof -
  have g: "get_stock_info w t = (t, 0, ''N/A'')"
    using assms by (simp add: get_stock_info_def)
  have ga: "get_stock_info_app w t = (t, 0, ''N/A'')"
    using assms by (simp add: get_stock_info_app_def)
  have "\<exists>r. loop_body w t acc = Inr (acc @ [r]) \<and>
                 ticker r = t \<and> name r = t \<and> div_yield r = 0 \<and> currency r = ''N/A'' \<and>
                 analysis r = generate_long_term_verdict stats \<and> smart_lots r = sl \<and>
                 stock_data.truncate r = stats"
    if a: "analyze_stock w (fetch_data w t) = Some stats"
      and c: "calculate_min_lots (price stats) t = Inr sl" for stats sl
  proof -
    have ne: "fetch_data w t \<noteq> []"
      using a by (auto simp: analyze_stock_def split: if_splits)
    show ?thesis
      using a c ne g
      by (simp add: loop_body_def Let_def stock_data.extend_def report.fields_def
            stock_data.truncate_def)
  qed
  with g ga show ?thesis by blast
qed

theorem metadata_unavailable_fallback_witness:
  "Ticker_info example_world ''LONG.KL'' = Inl ProviderError \<and>
   get_stock_info example_world ''LONG.KL'' = (''LONG.KL'', 0, ''N/A'') \<and>
   (\<exists>r. loop_body example_world ''LONG.KL'' [] = Inr [r] \<and>
        name r = ''LONG.KL'' \<and> div_yield r = 0 \<and> currency r = ''N/A'' \<and>
        smart_lots r = Some \<lparr>lots = 1, cost = 1000, fee_pct = 43 / 100\<rparr>)"
proof -
  have i: "Ticker_info example_world ''LONG.KL'' = Inl ProviderError"
    by (simp add: example_world_def)
  from metadata_unavailable_fallback [OF i, of "[]"]
    analyze_stock_example calculate_min_lots_at_10
  show ?thesis using i by fastforce
qed

text \<open>
  C8, as amended. If the dividend rate is present and not zero, and a positive price is
  present (the current price when that entry is a non-zero number, the previous close
  otherwise), the yield is \<open>rate / price * 100\<close>. Otherwise the raw yield field decides:
  a raw value below 1 is multiplied by 100, a raw value of 1 or more is returned as it
  is, and an absent or \<^verbatim>\<open>None\<close> raw value gives 0.
\<close>

theorem yield_pct_of_cases:
  "(has_rate info d \<and> has_price info c \<longrightarrow> yield_pct_of info = d / c * 100) \<and>
   ((\<nexists>d c. has_rate info d \<and> has_price info c) \<longrightarrow>
      (dividendYield info = Some (Num r) \<longrightarrow>
           yield_pct_of info = (if r < 1 then r * 100 else r)) \<and>
      (dividendYield info = None \<or> dividendYield info = Some PyNone \<longrightarrow>
           yield_pct_of info = 0))"
  by (auto simp: has_rate_def has_price_def yield_pct_of_def get_def py_or_def Let_def
        split: option.splits pynum.splits if_splits)

theorem yield_pct_of_cases_witness:
  "has_rate (example_info (Some (Num 2)) (Some (Num 40)) None) 2 \<and>
   has_price (example_info (Some (Num 2)) (Some (Num 40)) None) 40 \<and>
   yield_pct_of (example_info (Some (Num 2)) (Some (Num 40)) None) = 5 \<and>
   (\<nexists>d c. has_rate (example_info None (Some (Num 40)) (Some (Num 0.05))) d \<and>
          has_price (example_info None (Some (Num 40)) (Some (Num 0.05))) c) \<and>
   yield_pct_of (example_info None (Some (Num 40)) (Some (Num 0.05))) = 5 \<and>
   yield_pct_of (example_info None (Some (Num 40)) (Some (Num 6))) = 6 \<and>
   yield_pct_of (example_info None (Some (Num 40)) None) = 0"
  using yield_pct_of_cases [of "example_info (Some (Num 2)) (Some (Num 40)) None" 2 40]
    yield_pct_of_cases [of "example_info None (Some (Num 40)) (Some (Num 0.05))" _ _ "0.05"]
    yield_pct_of_cases [of "example_info None (Some (Num 40)) (Some (Num 6))" _ _ 6]
    yield_pct_of_cases [of "example_info None (Some (Num 40)) None"]
  by (simp add: has_rate_def has_price_def example_info_def)

text \<open>
  C8 as stated fails when the dividend rate is present with the value 0: with a rate of
  0, a current price of 10 and a raw yield of 0.05 the function returns 5, not
  \<open>0 / 10 * 100\<close>.
\<close>

theorem yield_pct_zero_rate_counterexample:
  "dividendRate (example_info (Some (Num 0)) (Some (Num 10)) (Some (Num 0.05))) = Some (Num 0) \<and>
   currentPrice (example_info (Some (Num 0)) (Some (Num 10)) (Some (Num 0.05))) = Some (Num 10) \<and>
   yield_pct_of (example_info (Some (Num 0)) (Some (Num 10)) (Some (Num 0.05))) = 5 \<and>
   yield_pct_of (example_info (Some (Num 0)) (Some (Num 10)) (Some (Num 0.05)))
     \<noteq> 0 / 10 * 100"
  by (simp add: example_info_def yield_pct_of_def get_def py_or_def Let_def)

end
